theory Spec2Isabelle
  imports Main
begin

section \<open>Entity lifecycle (client/entities/Entity.ts)\<close>

text \<open>
  The enum \<^verbatim>\<open>EntityState\<close>, in the order of its declaration.
\<close>

datatype EntityState =
    PendingCreation
  | Alive
  | DestroyingAnimated
  | PendingDestroy
  | Destroyed

text \<open>
  Modelled from the spec: the declarations of \<^verbatim>\<open>EntityInitData\<close>, \<^verbatim>\<open>EntityUpdateData\<close>,
  \<^verbatim>\<open>EntityKind\<close> and \<^verbatim>\<open>MapIndex\<close> live in \<^verbatim>\<open>EntityData.ts\<close>, which is not among the
  sources. The spec gives the fields: identity (integer), kind (integer enum) and index
  (pair of integers) for creation data; identity and index for update data.
  \<^verbatim>\<open>Entity.ts\<close> reads them as \<^verbatim>\<open>data.id\<close>, \<^verbatim>\<open>data.kind\<close>, \<^verbatim>\<open>data.index[0]\<close> and
  \<^verbatim>\<open>data.index[1]\<close>.
\<close>

type_synonym MapIndex = "int \<times> int"

type_synonym EntityKind = int

record EntityInitData =
  init_id :: int
  init_kind :: EntityKind
  init_index :: MapIndex

record EntityUpdateData =
  upd_id :: int
  upd_index :: MapIndex

text \<open>
  The fields of the class \<^verbatim>\<open>Entity\<close>. The field \<^verbatim>\<open>kind\<close> has no initialiser, so it is
  \<^verbatim>\<open>undefined\<close> (here \<open>None\<close>) until \<^verbatim>\<open>initEntity\<close> runs. \<^verbatim>\<open>position\<close> is the point
  inherited from the scene-graph container; the code only ever stores into it what the two
  projections of the world return, so its coordinate type is left open as \<open>'p\<close>.
\<close>

record 'p Entity =
  state :: EntityState
  kind :: "EntityKind option"
  id' :: int
  index :: MapIndex
  autoPosition :: bool
  position :: "'p \<times> 'p"

text \<open>
  A freshly constructed entity: the field initialisers of the class. The starting
  \<^verbatim>\<open>position\<close> is whatever the container's constructor sets, passed in as \<open>p0\<close>.
\<close>

definition new_Entity :: "'p \<times> 'p \<Rightarrow> 'p Entity" where
  "new_Entity p0 =
     \<lparr>state = PendingCreation, kind = None, id' = - 1, index = (0, 0),
      autoPosition = False, position = p0\<rparr>"

text \<open>The accessors \<^verbatim>\<open>x\<close> and \<^verbatim>\<open>y\<close>, which read and write the two cells of \<^verbatim>\<open>index\<close>.\<close>

definition get_x :: "'p Entity \<Rightarrow> int" where
  "get_x e = fst (index e)"

definition set_x :: "int \<Rightarrow> 'p Entity \<Rightarrow> 'p Entity" where
  "set_x x e = e\<lparr>index := (x, snd (index e))\<rparr>"

definition get_y :: "'p Entity \<Rightarrow> int" where
  "get_y e = snd (index e)"

definition set_y :: "int \<Rightarrow> 'p Entity \<Rightarrow> 'p Entity" where
  "set_y y e = e\<lparr>index := (fst (index e), y)\<rparr>"

text \<open>
  \<^verbatim>\<open>initEntity(data)\<close>. The projections \<^verbatim>\<open>Game.shared.indexToGlobalX\<close> and
  \<^verbatim>\<open>Game.shared.indexToGlobalY\<close> belong to \<^verbatim>\<open>Game.ts\<close>, which is not among the sources;
  they are the parameters \<open>gx\<close> and \<open>gy\<close>. The body has no test of the current state.
\<close>

definition initEntity ::
  "(int \<Rightarrow> 'p) \<Rightarrow> (int \<Rightarrow> 'p) \<Rightarrow> EntityInitData \<Rightarrow> 'p Entity \<Rightarrow> 'p Entity" where
  "initEntity gx gy data e =
     (let e1 = e\<lparr>kind := Some (init_kind data)\<rparr>;
          e2 = e1\<lparr>id' := init_id data\<rparr>;
          e3 = set_x (fst (init_index data)) e2;
          e4 = set_y (snd (init_index data)) e3;
          e5 = e4\<lparr>position := (gx (get_x e4), gy (get_y e4))\<rparr>
      in e5\<lparr>state := Alive\<rparr>)"

text \<open>\<^verbatim>\<open>moveTo(x, y)\<close>, \<^verbatim>\<open>moveToArray(index)\<close> and \<^verbatim>\<open>updateEntity(data)\<close>.\<close>

definition moveTo ::
  "(int \<Rightarrow> 'p) \<Rightarrow> (int \<Rightarrow> 'p) \<Rightarrow> int \<Rightarrow> int \<Rightarrow> 'p Entity \<Rightarrow> 'p Entity" where
  "moveTo gx gy x y e =
     (let e1 = set_x x e;
          e2 = set_y y e1
      in if autoPosition e2 then e2\<lparr>position := (gx x, gy y)\<rparr> else e2)"

definition moveToArray ::
  "(int \<Rightarrow> 'p) \<Rightarrow> (int \<Rightarrow> 'p) \<Rightarrow> MapIndex \<Rightarrow> 'p Entity \<Rightarrow> 'p Entity" where
  "moveToArray gx gy idx e = moveTo gx gy (fst idx) (snd idx) e"

definition updateEntity ::
  "(int \<Rightarrow> 'p) \<Rightarrow> (int \<Rightarrow> 'p) \<Rightarrow> EntityUpdateData \<Rightarrow> 'p Entity \<Rightarrow> 'p Entity" where
  "updateEntity gx gy data e = moveToArray gx gy (upd_index data) e"

text \<open>\<^verbatim>\<open>finishDestroy()\<close>: identity to \<open>-1\<close>, then state to \<^verbatim>\<open>PendingDestroy\<close>.\<close>

definition finishDestroy :: "'p Entity \<Rightarrow> 'p Entity" where
  "finishDestroy e = (let e1 = e\<lparr>id' := - 1\<rparr> in e1\<lparr>state := PendingDestroy\<rparr>)"

text \<open>
  \<^verbatim>\<open>animateDestroy()\<close> as the base class has it: it finishes at once. A subclass may
  override it (the comment in the source asks the override to call \<^verbatim>\<open>finishDestroy\<close>
  when its animation is over).
\<close>

definition animateDestroy :: "'p Entity \<Rightarrow> 'p Entity" where
  "animateDestroy e = finishDestroy e"

text \<open>
  \<^verbatim>\<open>destroyEntity(animated)\<close>. The call \<^verbatim>\<open>this.animateDestroy()\<close> is a virtual call, so
  the method that runs is the parameter \<open>hook\<close>: \<open>animateDestroy\<close> for an entity that
  does not override it, the subclass's method otherwise. The hook receives the entity
  after the state has been written.
\<close>

definition destroyEntity ::
  "('p Entity \<Rightarrow> 'p Entity) \<Rightarrow> bool \<Rightarrow> 'p Entity \<Rightarrow> 'p Entity" where
  "destroyEntity hook animated e =
     (if animated then hook (e\<lparr>state := DestroyingAnimated\<rparr>) else finishDestroy e)"

text \<open>\<^verbatim>\<open>update(dt)\<close>: the per-frame method, empty in the base class.\<close>

definition update :: "'t \<Rightarrow> 'p Entity \<Rightarrow> 'p Entity" where
  "update dt e = e"

text \<open>
  The methods that bring new data or a new frame to an entity, as values, so that a
  sequence of such calls can be run: \<^verbatim>\<open>updateEntity\<close>, \<^verbatim>\<open>update\<close>, \<^verbatim>\<open>moveTo\<close> and
  \<^verbatim>\<open>moveToArray\<close>.
\<close>

datatype 't UpdateCall =
    CallUpdateEntity EntityUpdateData
  | CallUpdate 't
  | CallMoveTo int int
  | CallMoveToArray MapIndex

fun invoke ::
  "(int \<Rightarrow> 'p) \<Rightarrow> (int \<Rightarrow> 'p) \<Rightarrow> 't UpdateCall \<Rightarrow> 'p Entity \<Rightarrow> 'p Entity" where
  "invoke gx gy (CallUpdateEntity data) e = updateEntity gx gy data e"
| "invoke gx gy (CallUpdate dt) e = update dt e"
| "invoke gx gy (CallMoveTo x y) e = moveTo gx gy x y e"
| "invoke gx gy (CallMoveToArray idx) e = moveToArray gx gy idx e"

definition invoke_all ::
  "(int \<Rightarrow> 'p) \<Rightarrow> (int \<Rightarrow> 'p) \<Rightarrow> 't UpdateCall list \<Rightarrow> 'p Entity \<Rightarrow> 'p Entity" where
  "invoke_all gx gy calls e = fold (invoke gx gy) calls e"

text \<open>
  The spec's wording of \<^verbatim>\<open>initEntity\<close>, for comparison with the code: calling it on an
  entity that is not in \<^verbatim>\<open>PendingCreation\<close> is reported as a lifecycle violation;
  otherwise it does what \<open>initEntity\<close> does.
\<close>

datatype LifecycleError = LifecycleViolation

definition initEntity_spec ::
  "(int \<Rightarrow> 'p) \<Rightarrow> (int \<Rightarrow> 'p) \<Rightarrow> EntityInitData \<Rightarrow> 'p Entity \<Rightarrow> LifecycleError + 'p Entity" where
  "initEntity_spec gx gy data e =
     (if state e = PendingCreation then Inr (initEntity gx gy data e)
      else Inl LifecycleViolation)"

section \<open>Connection (the unnamed source file part_000)\<close>

subsection \<open>Values, exceptions and effects\<close>

text \<open>
  The payload of a message has the type \<^verbatim>\<open>any\<close>, and the code reads it with no check of
  its shape, so the model is over untyped values: the values the decoder yields for nil,
  booleans, integers, strings, arrays and maps (an object is its list of properties, the
  first entry of a key being the one that counts). Numbers are kept to the integers, the
  only numbers of the wire format.
\<close>

datatype jsval =
    JUndefined
  | JNull
  | JBool bool
  | JNum int
  | JStr string
  | JArr "jsval list"
  | JObj "(string \<times> jsval) list"

text \<open>What a statement can throw: a \<^verbatim>\<open>TypeError\<close>, or an error object with a message.\<close>

datatype js_error = JsTypeError | JsError string

text \<open>
  Everything the class does is a call on a collaborator: the console, the socket, and
  the world \<^verbatim>\<open>Game.shared\<close> (whose file \<^verbatim>\<open>Game.ts\<close> is not among the sources). A run of
  a method is the list of these calls in the order they are made. \<open>'b\<close> is the type of a
  binary frame.
\<close>

datatype 'b console_arg =
    Text string
  | Value jsval
  | FrameData 'b
  | Thrown js_error
  | EventObject
  | Template string jsval

datatype 'b effect =
    ConsoleLog "'b console_arg list"
  | ConsoleWarn "'b console_arg list"
  | ConsoleError "'b console_arg list"
  | SocketSend 'b
  | Game_mapSize jsval
  | Game_addEntity jsval
  | Game_updateEntity jsval
  | Game_removeEntity jsval bool
  | Game_mainPlayerId jsval
  | Game_spectatingId jsval

text \<open>
  A computation: the effects performed so far, and either the exception that ended it
  (\<open>Inl\<close>) or its value (\<open>Inr\<close>). The calls on \<^verbatim>\<open>Game.shared\<close> are taken to return.
\<close>

type_synonym ('b, 'a) js = "'b effect list \<times> (js_error + 'a)"

definition js_return :: "'a \<Rightarrow> ('b, 'a) js" where
  "js_return x = ([], Inr x)"

definition js_throw :: "js_error \<Rightarrow> ('b, 'a) js" where
  "js_throw err = ([], Inl err)"

definition js_emit :: "'b effect \<Rightarrow> ('b, unit) js" where
  "js_emit eff = ([eff], Inr ())"

definition js_bind :: "('b, 'a) js \<Rightarrow> ('a \<Rightarrow> ('b, 'c) js) \<Rightarrow> ('b, 'c) js" where
  "js_bind m f =
     (case snd m of
        Inl err \<Rightarrow> (fst m, Inl err)
      | Inr x \<Rightarrow> (fst m @ fst (f x), snd (f x)))"

subsection \<open>The operators the code uses\<close>

text \<open>The name of the property that a numeric index reads: its decimal digits.\<close>

definition digit_char :: "nat \<Rightarrow> char" where
  "digit_char d = char_of (48 + d)"

function property_key :: "nat \<Rightarrow> string" where
  "property_key n =
     (if n < 10 then [digit_char n] else property_key (n div 10) @ [digit_char (n mod 10)])"
  by pat_completeness auto
termination
  by (relation "measure (\<lambda>n. n)") auto

text \<open>
  \<^verbatim>\<open>v[i]\<close>: reading a property of \<^verbatim>\<open>undefined\<close> or \<^verbatim>\<open>null\<close> throws a \<^verbatim>\<open>TypeError\<close>; an
  index past the end of an array or a string, or any index of a number or a boolean,
  reads \<^verbatim>\<open>undefined\<close>.
\<close>

fun js_get :: "jsval \<Rightarrow> nat \<Rightarrow> ('b, jsval) js" where
  "js_get JUndefined i = js_throw JsTypeError"
| "js_get JNull i = js_throw JsTypeError"
| "js_get (JBool b) i = js_return JUndefined"
| "js_get (JNum n) i = js_return JUndefined"
| "js_get (JStr s) i = js_return (if i < length s then JStr [s ! i] else JUndefined)"
| "js_get (JArr xs) i = js_return (if i < length xs then xs ! i else JUndefined)"
| "js_get (JObj kvs) i =
     js_return (case map_of kvs (property_key i) of Some v \<Rightarrow> v | None \<Rightarrow> JUndefined)"

text \<open>
  \<^verbatim>\<open>v.forEach(callback)\<close>: on an array the callback runs on each element in order; on
  any other value there is no such method to call, which is a \<^verbatim>\<open>TypeError\<close>.
\<close>

fun forEach_list :: "(jsval \<Rightarrow> ('b, unit) js) \<Rightarrow> jsval list \<Rightarrow> ('b, unit) js" where
  "forEach_list callback [] = js_return ()"
| "forEach_list callback (x # xs) = js_bind (callback x) (\<lambda>_. forEach_list callback xs)"

fun forEach :: "jsval \<Rightarrow> (jsval \<Rightarrow> ('b, unit) js) \<Rightarrow> ('b, unit) js" where
  "forEach (JArr xs) callback = forEach_list callback xs"
| "forEach JUndefined callback = js_throw JsTypeError"
| "forEach JNull callback = js_throw JsTypeError"
| "forEach (JBool b) callback = js_throw JsTypeError"
| "forEach (JNum n) callback = js_throw JsTypeError"
| "forEach (JStr s) callback = js_throw JsTypeError"
| "forEach (JObj kvs) callback = js_throw JsTypeError"

text \<open>\<^verbatim>\<open>typeof v\<close>: always a string.\<close>

fun typeof :: "jsval \<Rightarrow> string" where
  "typeof JUndefined = ''undefined''"
| "typeof JNull = ''object''"
| "typeof (JBool b) = ''boolean''"
| "typeof (JNum n) = ''number''"
| "typeof (JStr s) = ''string''"
| "typeof (JArr xs) = ''object''"
| "typeof (JObj kvs) = ''object''"

text \<open>
  \<^verbatim>\<open>v == undefined\<close>: the loose comparison with the value \<^verbatim>\<open>undefined\<close> holds for
  \<^verbatim>\<open>undefined\<close> and \<^verbatim>\<open>null\<close> and for nothing else.
\<close>

fun loose_eq_undefined :: "jsval \<Rightarrow> bool" where
  "loose_eq_undefined JUndefined = True"
| "loose_eq_undefined JNull = True"
| "loose_eq_undefined (JBool b) = False"
| "loose_eq_undefined (JNum n) = False"
| "loose_eq_undefined (JStr s) = False"
| "loose_eq_undefined (JArr xs) = False"
| "loose_eq_undefined (JObj kvs) = False"

text \<open>
  A \<^verbatim>\<open>case\<close> label of a \<^verbatim>\<open>switch\<close> compares strictly; against a number label only
  that number matches.
\<close>

definition case_label :: "jsval \<Rightarrow> int \<Rightarrow> bool" where
  "case_label v n = (v = JNum n)"

subsection \<open>Message types\<close>

definition IncomingMessageType_Join :: int where
  "IncomingMessageType_Join = 0"

definition IncomingMessageType_Update :: int where
  "IncomingMessageType_Update = 1"

definition OutgoingMessageType_Join :: int where
  "OutgoingMessageType_Join = 0"

definition OutgoingMessageType_Move :: int where
  "OutgoingMessageType_Move = 1"

subsection \<open>The socket\<close>

text \<open>
  The browser's socket object. The spec speaks of the session being open or not; that
  is the socket's \<^verbatim>\<open>readyState\<close>, which no line of the class reads. The field
  \<^verbatim>\<open>socket\<close> of the connection is optional in its declaration.
\<close>

datatype ReadyState = CONNECTING | OPEN | CLOSING | CLOSED

record WebSocket =
  readyState :: ReadyState

record Connection =
  socket :: "WebSocket option"

subsection \<open>Event handlers\<close>

definition onConnectionEnded :: "('b, unit) js" where
  "onConnectionEnded = js_return ()"

definition onClose :: "('b, unit) js" where
  "onClose = js_bind (js_emit (ConsoleLog [Text ''Socket closed''])) (\<lambda>_. onConnectionEnded)"

definition onError :: "('b, unit) js" where
  "onError =
     js_bind (js_emit (ConsoleLog [Text ''Socket error'', EventObject])) (\<lambda>_. onConnectionEnded)"

definition onOpen :: "('b, unit) js" where
  "onOpen = js_emit (ConsoleLog [Text ''Open'', EventObject])"

text \<open>\<^verbatim>\<open>onJoin(data)\<close>: two writes to the world.\<close>

definition onJoin :: "jsval \<Rightarrow> ('b, unit) js" where
  "onJoin data =
     (let playerId = data
      in js_bind (js_emit (Game_mainPlayerId playerId)) (\<lambda>_.
         js_emit (Game_spectatingId playerId)))"

text \<open>
  \<^verbatim>\<open>onUpdate(data)\<close>, statement by statement: the write of \<^verbatim>\<open>mapSize\<close>, then the four
  loops. The second argument of \<^verbatim>\<open>removeEntity\<close> is the constant written in the source:
  \<^verbatim>\<open>false\<close> in the loop over \<^verbatim>\<open>data[3]\<close>, \<^verbatim>\<open>true\<close> in the loop over \<^verbatim>\<open>data[4]\<close>.
\<close>

definition onUpdate :: "jsval \<Rightarrow> ('b, unit) js" where
  "onUpdate data =
     js_bind (js_get data 0) (\<lambda>d0.
     js_bind (js_emit (Game_mapSize d0)) (\<lambda>_.
     js_bind (js_get data 1) (\<lambda>d1.
     js_bind (forEach d1 (\<lambda>e. js_emit (Game_addEntity e))) (\<lambda>_.
     js_bind (js_get data 2) (\<lambda>d2.
     js_bind (forEach d2 (\<lambda>e. js_emit (Game_updateEntity e))) (\<lambda>_.
     js_bind (js_get data 3) (\<lambda>d3.
     js_bind (forEach d3 (\<lambda>i. js_emit (Game_removeEntity i False))) (\<lambda>_.
     js_bind (js_get data 4) (\<lambda>d4.
     forEach d4 (\<lambda>i. js_emit (Game_removeEntity i True)))))))))))"

text \<open>
  \<^verbatim>\<open>onMessage(event)\<close>. The decoder is the library call \<^verbatim>\<open>msgpack.decode\<close> on the bytes of
  the event, inside \<^verbatim>\<open>try\<close>: the parameter \<open>decode\<close> gives the exception it throws
  (\<open>Inl\<close>) or the value it returns (\<open>Inr\<close>). The \<^verbatim>\<open>catch\<close> branch logs and returns. The
  two reads \<^verbatim>\<open>messageData[0]\<close> and \<^verbatim>\<open>messageData[1]\<close> are outside the \<^verbatim>\<open>try\<close>.
\<close>

definition onMessage :: "('b \<Rightarrow> js_error + jsval) \<Rightarrow> 'b \<Rightarrow> ('b, unit) js" where
  "onMessage decode frame =
     (case decode frame of
        Inl error \<Rightarrow>
          js_emit (ConsoleError [Text ''Could not parse message'', FrameData frame, Thrown error])
      | Inr messageData \<Rightarrow>
          js_bind (js_get messageData 0) (\<lambda>ty.
          js_bind (js_get messageData 1) (\<lambda>data.
            if loose_eq_undefined (JStr (typeof ty)) then
              js_emit (ConsoleWarn [Text ''No type in message'', Value data])
            else if case_label ty IncomingMessageType_Join then onJoin data
            else if case_label ty IncomingMessageType_Update then onUpdate data
            else js_emit (ConsoleError [Template ''Unknown message type '' ty]))))"

text \<open>
  The socket calls the handler once for each frame it receives
  (\<^verbatim>\<open>this.socket.onmessage = e => this.onMessage(e)\<close>), each call a run of its own.
\<close>

definition deliver ::
  "('b \<Rightarrow> js_error + jsval) \<Rightarrow> 'b list \<Rightarrow> ('b, unit) js list" where
  "deliver decode frames = map (onMessage decode) frames"

definition effects_of :: "('b, 'a) js list \<Rightarrow> 'b effect list" where
  "effects_of runs = concat (map fst runs)"

subsection \<open>Senders\<close>

text \<open>
  \<^verbatim>\<open>sendMessage(type, data)\<close>. The encoder is the library call \<^verbatim>\<open>msgpack.encode\<close>, the
  parameter \<open>encode\<close>. What the socket's own \<^verbatim>\<open>send\<close> does with the bytes is the browser's
  business: the parameter \<open>ws_send\<close> says whether it throws for this socket and these
  bytes. The body has no test of the socket's state.
\<close>

definition sendMessage ::
  "(jsval \<Rightarrow> 'b) \<Rightarrow> (WebSocket \<Rightarrow> 'b \<Rightarrow> js_error option) \<Rightarrow> Connection \<Rightarrow> int \<Rightarrow> jsval
    \<Rightarrow> ('b, unit) js" where
  "sendMessage encode ws_send this ty data =
     (let message = JArr [JNum ty, data];
          binary = encode message
      in case socket this of
           None \<Rightarrow> js_throw JsTypeError
         | Some ws \<Rightarrow>
             js_bind (js_emit (SocketSend binary)) (\<lambda>_.
               case ws_send ws binary of
                 Some err \<Rightarrow> js_throw err
               | None \<Rightarrow> js_return ()))"

definition sendJoin ::
  "(jsval \<Rightarrow> 'b) \<Rightarrow> (WebSocket \<Rightarrow> 'b \<Rightarrow> js_error option) \<Rightarrow> Connection \<Rightarrow> string
    \<Rightarrow> ('b, unit) js" where
  "sendJoin encode ws_send this username =
     sendMessage encode ws_send this OutgoingMessageType_Join (JStr username)"

definition sendMove ::
  "(jsval \<Rightarrow> 'b) \<Rightarrow> (WebSocket \<Rightarrow> 'b \<Rightarrow> js_error option) \<Rightarrow> Connection \<Rightarrow> int \<Rightarrow> int
    \<Rightarrow> ('b, unit) js" where
  "sendMove encode ws_send this x y =
     sendMessage encode ws_send this OutgoingMessageType_Move (JArr [JNum x, JNum y])"

subsection \<open>Auxiliary definitions for stating and running examples\<close>

text \<open>The calls of \<^verbatim>\<open>Game.shared.removeEntity\<close> among the effects of a run.\<close>

fun is_removeEntity :: "'b effect \<Rightarrow> bool" where
  "is_removeEntity (Game_removeEntity i animated) = True"
| "is_removeEntity (ConsoleLog args) = False"
| "is_removeEntity (ConsoleWarn args) = False"
| "is_removeEntity (ConsoleError args) = False"
| "is_removeEntity (SocketSend binary) = False"
| "is_removeEntity (Game_mapSize v) = False"
| "is_removeEntity (Game_addEntity v) = False"
| "is_removeEntity (Game_updateEntity v) = False"
| "is_removeEntity (Game_mainPlayerId v) = False"
| "is_removeEntity (Game_spectatingId v) = False"

text \<open>
  The codec is a library and stays a parameter. To run the handlers on a concrete input,
  a stand-in codec whose frames say what the decoder makes of them: \<open>Some v\<close> is a frame
  that decodes to \<open>v\<close>, \<open>None\<close> a frame on which the decoder throws.
\<close>

definition standin_encode :: "jsval \<Rightarrow> jsval option" where
  "standin_encode v = Some v"

definition standin_decode :: "jsval option \<Rightarrow> js_error + jsval" where
  "standin_decode frame =
     (case frame of None \<Rightarrow> Inl (JsError ''BUFFER_SHORTAGE'') | Some v \<Rightarrow> Inr v)"

text \<open>A socket whose \<^verbatim>\<open>send\<close> never throws.\<close>

definition quiet_send :: "WebSocket \<Rightarrow> 'b \<Rightarrow> js_error option" where
  "quiet_send ws binary = None"

section \<open>Properties of the entity lifecycle\<close>

lemma state_invoke: "state (invoke gx gy c e) = state e"
  by (cases c)
    (simp_all add: updateEntity_def moveToArray_def moveTo_def update_def set_x_def
      set_y_def Let_def)

lemma id_invoke: "id' (invoke gx gy c e) = id' e"
  by (cases c)
    (simp_all add: updateEntity_def moveToArray_def moveTo_def update_def set_x_def
      set_y_def Let_def)

lemma state_invoke_all: "state (invoke_all gx gy cs e) = state e"
  unfolding invoke_all_def by (induction cs arbitrary: e) (simp_all add: state_invoke)

lemma id_invoke_all: "id' (invoke_all gx gy cs e) = id' e"
  unfolding invoke_all_def by (induction cs arbitrary: e) (simp_all add: id_invoke)

text \<open>
  Claim C10. \<^verbatim>\<open>destroyEntity\<close> and \<^verbatim>\<open>finishDestroy\<close> test nothing: for an entity in any
  lifecycle state and for either value of \<^verbatim>\<open>animated\<close>, \<^verbatim>\<open>destroyEntity\<close> with the base
  class's animation hook returns the entity with identity \<open>-1\<close> and state
  \<^verbatim>\<open>PendingDestroy\<close>, every other field as it was; so does \<^verbatim>\<open>finishDestroy\<close>. The result
  is always an entity: the methods have no failing branch.
\<close>

theorem destroyEntity_no_precondition:
  "destroyEntity animateDestroy animated e = e\<lparr>id' := - 1, state := PendingDestroy\<rparr>
   \<and> finishDestroy e = e\<lparr>id' := - 1, state := PendingDestroy\<rparr>
   \<and> state (destroyEntity animateDestroy animated e) = PendingDestroy
   \<and> id' (destroyEntity animateDestroy animated e) = - 1"
  by (simp add: destroyEntity_def animateDestroy_def finishDestroy_def)

text \<open>
  Claim C3. On an \<^verbatim>\<open>Alive\<close> entity, \<^verbatim>\<open>destroyEntity(false)\<close> goes straight to
  \<^verbatim>\<open>PendingDestroy\<close> with identity \<open>-1\<close>. \<^verbatim>\<open>destroyEntity(true)\<close> first writes
  \<^verbatim>\<open>DestroyingAnimated\<close> and hands the entity in that state to the animation hook; the
  base class's hook calls \<^verbatim>\<open>finishDestroy\<close> on it at once. With a hook that returns
  without touching state or identity (an override that has started its animation and
  not yet called \<^verbatim>\<open>finishDestroy\<close>), the entity is in \<^verbatim>\<open>DestroyingAnimated\<close> with its
  identity kept, stays so through any sequence of update calls, and goes to
  \<^verbatim>\<open>PendingDestroy\<close> with identity \<open>-1\<close> when \<^verbatim>\<open>finishDestroy\<close> is called.
\<close>

theorem destroyEntity_Alive:
  assumes alive: "state e = Alive"
  shows "state (destroyEntity hook False e) = PendingDestroy
    \<and> id' (destroyEntity hook False e) = - 1
    \<and> destroyEntity hook True e = hook (e\<lparr>state := DestroyingAnimated\<rparr>)
    \<and> destroyEntity animateDestroy True e = finishDestroy (e\<lparr>state := DestroyingAnimated\<rparr>)
    \<and> ((\<forall>e'. state (hook e') = state e' \<and> id' (hook e') = id' e') \<longrightarrow>
          state (destroyEntity hook True e) = DestroyingAnimated
        \<and> id' (destroyEntity hook True e) = id' e
        \<and> state (invoke_all gx gy calls (destroyEntity hook True e)) = DestroyingAnimated
        \<and> id' (invoke_all gx gy calls (destroyEntity hook True e)) = id' e
        \<and> state (finishDestroy (invoke_all gx gy calls (destroyEntity hook True e)))
            = PendingDestroy
        \<and> id' (finishDestroy (invoke_all gx gy calls (destroyEntity hook True e))) = - 1)"
proof -
  have immediate: "state (destroyEntity hook False e) = PendingDestroy
      \<and> id' (destroyEntity hook False e) = - 1"
    by (simp add: destroyEntity_def finishDestroy_def)
  have handed: "destroyEntity hook True e = hook (e\<lparr>state := DestroyingAnimated\<rparr>)"
    by (simp add: destroyEntity_def)
  have base: "destroyEntity animateDestroy True e
      = finishDestroy (e\<lparr>state := DestroyingAnimated\<rparr>)"
    by (simp add: destroyEntity_def animateDestroy_def)
  have deferred: "state (destroyEntity hook True e) = DestroyingAnimated
        \<and> id' (destroyEntity hook True e) = id' e
        \<and> state (invoke_all gx gy calls (destroyEntity hook True e)) = DestroyingAnimated
        \<and> id' (invoke_all gx gy calls (destroyEntity hook True e)) = id' e
        \<and> state (finishDestroy (invoke_all gx gy calls (destroyEntity hook True e)))
            = PendingDestroy
        \<and> id' (finishDestroy (invoke_all gx gy calls (destroyEntity hook True e))) = - 1"
    if keeps: "\<forall>e'. state (hook e') = state e' \<and> id' (hook e') = id' e'"
  proof -
    have "state (destroyEntity hook True e) = DestroyingAnimated"
      and "id' (destroyEntity hook True e) = id' e"
      using keeps by (simp_all add: handed)
    then show ?thesis
      by (simp add: state_invoke_all id_invoke_all finishDestroy_def)
  qed
  from immediate handed base deferred show ?thesis by blast
qed

text \<open>
  Witness for C3: an entity made \<^verbatim>\<open>Alive\<close> by \<^verbatim>\<open>initEntity\<close>, a hook that does nothing,
  and two update calls before \<^verbatim>\<open>finishDestroy\<close>.
\<close>

theorem destroyEntity_Alive_witness:
  "state (initEntity ((*) 32) ((*) 32) \<lparr>init_id = 7, init_kind = 0, init_index = (2, 3)\<rparr>
            (new_Entity (0, 0))) = Alive
   \<and> (\<forall>e'. state (update () e' :: int Entity) = state e' \<and> id' (update () e') = id' e')
   \<and> state (destroyEntity (update ()) True
        (initEntity ((*) 32) ((*) 32) \<lparr>init_id = 7, init_kind = 0, init_index = (2, 3)\<rparr>
            (new_Entity (0, 0)))) = DestroyingAnimated
   \<and> id' (finishDestroy (invoke_all ((*) 32) ((*) 32)
        [CallUpdateEntity \<lparr>upd_id = 7, upd_index = (4, 5)\<rparr>, CallUpdate ()]
        (destroyEntity (update ()) True
          (initEntity ((*) 32) ((*) 32) \<lparr>init_id = 7, init_kind = 0, init_index = (2, 3)\<rparr>
            (new_Entity (0, 0)))))) = - 1"
proof -
  let ?e = "initEntity ((*) 32) ((*) 32) \<lparr>init_id = 7, init_kind = 0, init_index = (2, 3)\<rparr>
            (new_Entity (0, 0 :: int))"
  have alive: "state ?e = Alive"
    by (simp add: initEntity_def Let_def)
  have keeps: "\<forall>e'. state (update () e' :: int Entity) = state e' \<and> id' (update () e') = id' e'"
    by (simp add: update_def)
  from destroyEntity_Alive [OF alive, of "update ()" "(*) 32" "(*) 32"
      "[CallUpdateEntity \<lparr>upd_id = 7, upd_index = (4, 5)\<rparr>, CallUpdate ()]"]
    alive keeps
  show ?thesis by blast
qed

text \<open>
  Claim C8. \<^verbatim>\<open>updateEntity\<close> is idempotent: on an \<^verbatim>\<open>Alive\<close> entity, applying the same
  update data twice in succession (under the same projections) gives the entity that
  applying it once gives, in every field, grid index and position among them.
\<close>

theorem updateEntity_idempotent:
  assumes "state e = Alive"
  shows "updateEntity gx gy d (updateEntity gx gy d e) = updateEntity gx gy d e"
  by (simp add: updateEntity_def moveToArray_def moveTo_def set_x_def set_y_def Let_def)

text \<open>
  Witness for C8: an \<^verbatim>\<open>Alive\<close> entity with \<^verbatim>\<open>autoPosition\<close> switched on, moved from
  \<open>(2, 3)\<close> to \<open>(4, 5)\<close> twice.
\<close>

theorem updateEntity_idempotent_witness:
  "state (initEntity ((*) 32) ((*) 32) \<lparr>init_id = 7, init_kind = 0, init_index = (2, 3)\<rparr>
            (new_Entity (0, 0 :: int))\<lparr>autoPosition := True\<rparr>) = Alive
   \<and> updateEntity ((*) 32) ((*) 32) \<lparr>upd_id = 7, upd_index = (4, 5)\<rparr>
       (updateEntity ((*) 32) ((*) 32) \<lparr>upd_id = 7, upd_index = (4, 5)\<rparr>
         (initEntity ((*) 32) ((*) 32) \<lparr>init_id = 7, init_kind = 0, init_index = (2, 3)\<rparr>
            (new_Entity (0, 0))\<lparr>autoPosition := True\<rparr>))
     = \<lparr>state = Alive, kind = Some 0, id' = 7, index = (4, 5), autoPosition = True,
        position = (128, 160)\<rparr>"
proof -
  let ?e = "initEntity ((*) 32) ((*) 32) \<lparr>init_id = 7, init_kind = 0, init_index = (2, 3)\<rparr>
            (new_Entity (0, 0 :: int))\<lparr>autoPosition := True\<rparr>"
  have alive: "state ?e = Alive"
    by (simp add: initEntity_def Let_def)
  have once: "updateEntity ((*) 32) ((*) 32) \<lparr>upd_id = 7, upd_index = (4, 5)\<rparr> ?e
     = \<lparr>state = Alive, kind = Some 0, id' = 7, index = (4, 5), autoPosition = True,
        position = (128, 160)\<rparr>"
    by (simp add: updateEntity_def moveToArray_def moveTo_def set_x_def set_y_def Let_def
        initEntity_def new_Entity_def get_x_def get_y_def)
  from updateEntity_idempotent [OF alive, of "(*) 32" "(*) 32"
      "\<lparr>upd_id = 7, upd_index = (4, 5)\<rparr>"]
    alive once
  show ?thesis by simp
qed

text \<open>
  Claim C5, as stated, fails on the code. A second \<^verbatim>\<open>initEntity\<close> on an entity that the
  first call has already made \<^verbatim>\<open>Alive\<close> is accepted: it returns the entity re-initialised
  from the second data (identity 7 replaced by 9), where the spec's wording asks for a
  reported lifecycle violation.
\<close>

theorem initEntity_twice_counterexample:
  "initEntity ((*) 32) ((*) 32) \<lparr>init_id = 9, init_kind = 1, init_index = (5, 6)\<rparr>
     (initEntity ((*) 32) ((*) 32) \<lparr>init_id = 7, init_kind = 0, init_index = (2, 3)\<rparr>
        (new_Entity (0, 0 :: int)))
   = \<lparr>state = Alive, kind = Some 1, id' = 9, index = (5, 6), autoPosition = False,
      position = (160, 192)\<rparr>
   \<and> initEntity_spec ((*) 32) ((*) 32) \<lparr>init_id = 9, init_kind = 1, init_index = (5, 6)\<rparr>
     (initEntity ((*) 32) ((*) 32) \<lparr>init_id = 7, init_kind = 0, init_index = (2, 3)\<rparr>
        (new_Entity (0, 0 :: int)))
   = Inl LifecycleViolation"
  by (simp add: initEntity_spec_def initEntity_def new_Entity_def set_x_def set_y_def
      get_x_def get_y_def Let_def)

text \<open>
  Claim C5, amended. \<^verbatim>\<open>initEntity\<close> has no lifecycle precondition: on an entity in any
  state it sets kind, identity and grid index from the data, sets the position to the
  projection of that index, leaves \<^verbatim>\<open>autoPosition\<close> alone and makes the state \<^verbatim>\<open>Alive\<close>;
  a second call is accepted and overrides the first.
\<close>

theorem initEntity_any_state:
  "state (initEntity gx gy d e) = Alive
   \<and> kind (initEntity gx gy d e) = Some (init_kind d)
   \<and> id' (initEntity gx gy d e) = init_id d
   \<and> index (initEntity gx gy d e) = init_index d
   \<and> position (initEntity gx gy d e) = (gx (fst (init_index d)), gy (snd (init_index d)))
   \<and> autoPosition (initEntity gx gy d e) = autoPosition e
   \<and> initEntity gx gy d (initEntity gx gy d0 e) = initEntity gx gy d e"
  by (simp add: initEntity_def set_x_def set_y_def get_x_def get_y_def Let_def)

section \<open>Properties of the connection\<close>

subsection \<open>Running computations\<close>

lemma js_bind_return [simp]: "js_bind (js_return x) f = f x"
  by (simp add: js_bind_def js_return_def)

lemma js_bind_throw [simp]: "js_bind (js_throw err) f = js_throw err"
  by (simp add: js_bind_def js_throw_def)

lemma js_bind_emit [simp]: "js_bind (js_emit eff) f = (eff # fst (f ()), snd (f ()))"
  by (simp add: js_bind_def js_emit_def)

lemma js_bind_done [simp]: "js_bind (effs, Inr x) f = (effs @ fst (f x), snd (f x))"
  by (simp add: js_bind_def)

lemma forEach_list_emit: "forEach_list (\<lambda>x. js_emit (g x)) xs = (map g xs, Inr ())"
  by (induction xs) (simp_all add: js_return_def)

lemma js_get_tuple:
  "js_get (JArr (a # rest0)) 0 = js_return a"
  "js_get (JArr (a # b # c # d # e # rest)) (Suc 0) = js_return b"
  "js_get (JArr (a # b # c # d # e # rest)) 2 = js_return c"
  "js_get (JArr (a # b # c # d # e # rest)) 3 = js_return d"
  "js_get (JArr (a # b # c # d # e # rest)) 4 = js_return e"
  by (simp_all add: numeral_eq_Suc)

lemma js_get_effects [simp]: "fst (js_get v i) = []"
  by (cases v) (simp_all add: js_return_def js_throw_def)

text \<open>A property of every effect of the parts holds of every effect of the whole.\<close>

lemma js_bind_effects:
  assumes "\<forall>e \<in> set (fst m). P e" and "\<And>x. \<forall>e \<in> set (fst (f x)). P e"
  shows "\<forall>e \<in> set (fst (js_bind m f)). P e"
  using assms by (auto simp: js_bind_def split: sum.splits)

lemma forEach_effects:
  assumes "\<And>x. P (g x)"
  shows "\<forall>e \<in> set (fst (forEach v (\<lambda>x. js_emit (g x)))). P e"
  using assms by (cases v) (simp_all add: forEach_list_emit js_throw_def)

lemma emit_effects: "P eff \<Longrightarrow> \<forall>e \<in> set (fst (js_emit eff)). P e"
  by (simp add: js_emit_def)

lemma get_effects: "\<forall>e \<in> set (fst (js_get v i)). P e"
  by simp

subsection \<open>Update envelopes\<close>

text \<open>
  Claim C6. On an Update payload (a tuple of a map size and four arrays, whatever
  follows them), \<^verbatim>\<open>onUpdate\<close> returns normally and its calls on the world are, in this
  order: the write of \<^verbatim>\<open>mapSize\<close>; \<^verbatim>\<open>addEntity\<close> for each element of the appeared
  array; \<^verbatim>\<open>updateEntity\<close> for each element of the updated array; \<^verbatim>\<open>removeEntity\<close> for
  each disappeared id; \<^verbatim>\<open>removeEntity\<close> for each destroyed id. What \<^verbatim>\<open>addEntity\<close> and
  \<^verbatim>\<open>updateEntity\<close> then do to the registry is in \<^verbatim>\<open>Game.ts\<close>, outside the sources.
\<close>

theorem onUpdate_order:
  "onUpdate
     (JArr (mapSize # JArr appeared # JArr updated # JArr disappeared # JArr destroyed # rest))
   = (Game_mapSize mapSize
        # map Game_addEntity appeared
        @ map Game_updateEntity updated
        @ map (\<lambda>i. Game_removeEntity i False) disappeared
        @ map (\<lambda>i. Game_removeEntity i True) destroyed,
      Inr ())"
  unfolding onUpdate_def
  by (simp add: js_get_tuple forEach_list_emit del: js_get.simps)

text \<open>
  Claim C1, as stated, fails on the code. For the payload
  \<^verbatim>\<open>[50, [], [], [7], [8]]\<close> the disappeared id 7 is removed with the flag \<^verbatim>\<open>false\<close> and
  the destroyed id 8 with the flag \<^verbatim>\<open>true\<close>; there is no call \<^verbatim>\<open>removeEntity(7, true)\<close>
  and no call \<^verbatim>\<open>removeEntity(8, false)\<close>.
\<close>

theorem onUpdate_removal_flags_counterexample:
  "(onUpdate (JArr [JNum 50, JArr [], JArr [], JArr [JNum 7], JArr [JNum 8]])
      :: (jsval option, unit) js)
   = ([Game_mapSize (JNum 50), Game_removeEntity (JNum 7) False,
       Game_removeEntity (JNum 8) True], Inr ())
   \<and> Game_removeEntity (JNum 7) True \<notin> set (fst (onUpdate
        (JArr [JNum 50, JArr [], JArr [], JArr [JNum 7], JArr [JNum 8]])
      :: (jsval option, unit) js))
   \<and> Game_removeEntity (JNum 8) False \<notin> set (fst (onUpdate
        (JArr [JNum 50, JArr [], JArr [], JArr [JNum 7], JArr [JNum 8]])
      :: (jsval option, unit) js))"
  unfolding onUpdate_def
  by (simp add: js_get_tuple forEach_list_emit del: js_get.simps)

text \<open>
  Claim C1, amended. The calls of \<^verbatim>\<open>removeEntity\<close> that \<^verbatim>\<open>onUpdate\<close> makes on an Update
  payload are exactly these, in this order: \<^verbatim>\<open>removeEntity(id, false)\<close> for each id of
  the disappeared list, then \<^verbatim>\<open>removeEntity(id, true)\<close> for each id of the destroyed
  list.
\<close>

theorem onUpdate_removals:
  "filter is_removeEntity
     (fst (onUpdate
        (JArr (mapSize # JArr appeared # JArr updated # JArr disappeared # JArr destroyed
           # rest))))
   = map (\<lambda>i. Game_removeEntity i False) disappeared
     @ map (\<lambda>i. Game_removeEntity i True) destroyed"
  unfolding onUpdate_def
  by (simp add: js_get_tuple forEach_list_emit filter_map comp_def del: js_get.simps)

subsection \<open>Sending\<close>

text \<open>
  Claim C4, as stated, fails on the code. With the socket closed, \<^verbatim>\<open>sendJoin\<close> does call
  the socket's \<^verbatim>\<open>send\<close>, with the encoded envelope \<^verbatim>\<open>[0, "bob"]\<close>.
\<close>

theorem sendJoin_closed_counterexample:
  "sendJoin standin_encode quiet_send \<lparr>socket = Some \<lparr>readyState = CLOSED\<rparr>\<rparr> ''bob''
   = ([SocketSend (Some (JArr [JNum 0, JStr ''bob'']))], Inr ())"
  by (simp add: sendJoin_def sendMessage_def standin_encode_def quiet_send_def
      OutgoingMessageType_Join_def js_return_def Let_def)

text \<open>
  Claim C4, amended. The senders make no test of the socket's state: for a socket in
  any state, \<^verbatim>\<open>sendMessage\<close>, \<^verbatim>\<open>sendJoin\<close> and \<^verbatim>\<open>sendMove\<close> encode the envelope and call
  the socket's \<^verbatim>\<open>send\<close> with the bytes exactly once; the connection itself queues
  nothing, and the call throws exactly when the socket's \<^verbatim>\<open>send\<close> throws.
\<close>

theorem send_no_state_check:
  "sendMessage encode ws_send \<lparr>socket = Some ws\<rparr> ty data
     = ([SocketSend (encode (JArr [JNum ty, data]))],
        (case ws_send ws (encode (JArr [JNum ty, data])) of
           Some err \<Rightarrow> Inl err | None \<Rightarrow> Inr ()))
   \<and> sendJoin encode ws_send \<lparr>socket = Some ws\<rparr> username
     = ([SocketSend (encode (JArr [JNum 0, JStr username]))],
        (case ws_send ws (encode (JArr [JNum 0, JStr username])) of
           Some err \<Rightarrow> Inl err | None \<Rightarrow> Inr ()))
   \<and> sendMove encode ws_send \<lparr>socket = Some ws\<rparr> x y
     = ([SocketSend (encode (JArr [JNum 1, JArr [JNum x, JNum y]]))],
        (case ws_send ws (encode (JArr [JNum 1, JArr [JNum x, JNum y]])) of
           Some err \<Rightarrow> Inl err | None \<Rightarrow> Inr ()))"
  by (simp add: sendJoin_def sendMove_def sendMessage_def OutgoingMessageType_Join_def
      OutgoingMessageType_Move_def js_return_def js_throw_def Let_def split: option.split)

subsection \<open>Receiving\<close>

text \<open>
  Claim C7. When the decoder throws on a frame, \<^verbatim>\<open>onMessage\<close> returns normally and its
  only effect is one \<^verbatim>\<open>console.error\<close> entry carrying the frame and the exception: no
  call on the world and none on the socket. The frames before and after it are handled
  as they would be without it.
\<close>

theorem onMessage_decode_failure:
  assumes "decode frame = Inl err"
  shows "onMessage decode frame
     = ([ConsoleError [Text ''Could not parse message'', FrameData frame, Thrown err]], Inr ())
   \<and> deliver decode (before @ frame # after)
     = deliver decode before
       @ ([ConsoleError [Text ''Could not parse message'', FrameData frame, Thrown err]], Inr ())
       # deliver decode after
   \<and> effects_of (deliver decode (before @ frame # after))
     = effects_of (deliver decode before)
       @ ConsoleError [Text ''Could not parse message'', FrameData frame, Thrown err]
       # effects_of (deliver decode after)"
proof -
  have one: "onMessage decode frame
     = ([ConsoleError [Text ''Could not parse message'', FrameData frame, Thrown err]], Inr ())"
    using assms by (simp add: onMessage_def js_emit_def)
  then show ?thesis
    by (simp add: deliver_def effects_of_def)
qed

text \<open>
  Witness for C7: a Join frame, an undecodable frame, and another Join frame; both Join
  frames reach the world, with the log entry between them.
\<close>

theorem onMessage_decode_failure_witness:
  "standin_decode None = Inl (JsError ''BUFFER_SHORTAGE'')
   \<and> effects_of (deliver standin_decode
        [Some (JArr [JNum 0, JNum 5]), None, Some (JArr [JNum 0, JNum 6])])
     = [Game_mainPlayerId (JNum 5), Game_spectatingId (JNum 5),
        ConsoleError [Text ''Could not parse message'', FrameData None,
          Thrown (JsError ''BUFFER_SHORTAGE'')],
        Game_mainPlayerId (JNum 6), Game_spectatingId (JNum 6)]"
proof -
  have fails: "standin_decode None = Inl (JsError ''BUFFER_SHORTAGE'')"
    by (simp add: standin_decode_def)
  have join: "effects_of (deliver standin_decode [Some (JArr [JNum 0, JNum n])])
      = [Game_mainPlayerId (JNum n), Game_spectatingId (JNum n)]" for n
    by (simp add: effects_of_def deliver_def onMessage_def standin_decode_def onJoin_def
        case_label_def IncomingMessageType_Join_def js_emit_def Let_def)
  have "effects_of (deliver standin_decode
        ([Some (JArr [JNum 0, JNum 5])] @ None # [Some (JArr [JNum 0, JNum 6])]))
     = effects_of (deliver standin_decode [Some (JArr [JNum 0, JNum 5])])
       @ ConsoleError [Text ''Could not parse message'', FrameData None,
           Thrown (JsError ''BUFFER_SHORTAGE'')]
       # effects_of (deliver standin_decode [Some (JArr [JNum 0, JNum 6])])"
    using onMessage_decode_failure [of standin_decode None "JsError ''BUFFER_SHORTAGE''"
      "[Some (JArr [JNum 0, JNum 5])]" "[Some (JArr [JNum 0, JNum 6])]", OF fails]
    by blast
  then show ?thesis
    by (simp add: join fails)
qed

subsection \<open>The test for a missing type\<close>

lemma onUpdate_no_warn: "\<forall>e \<in> set (fst (onUpdate data)). e \<noteq> ConsoleWarn args"
  unfolding onUpdate_def
  by (intro js_bind_effects get_effects emit_effects forEach_effects) simp_all

lemma onJoin_no_warn: "\<forall>e \<in> set (fst (onJoin data)). e \<noteq> ConsoleWarn args"
  by (simp add: onJoin_def js_emit_def Let_def)

lemma onMessage_guard_free:
  "decode frame = Inr messageData \<Longrightarrow>
     onMessage decode frame
     = js_bind (js_get messageData 0) (\<lambda>ty.
       js_bind (js_get messageData 1) (\<lambda>data.
         if case_label ty IncomingMessageType_Join then onJoin data
         else if case_label ty IncomingMessageType_Update then onUpdate data
         else js_emit (ConsoleError [Template ''Unknown message type '' ty])))"
  by (simp add: onMessage_def)

lemma onMessage_no_warn: "\<forall>e \<in> set (fst (onMessage decode frame)). e \<noteq> ConsoleWarn args"
proof (cases "decode frame")
  case (Inl err)
  then show ?thesis by (simp add: onMessage_def js_emit_def)
next
  case (Inr messageData)
  show ?thesis
    unfolding onMessage_guard_free [of decode frame messageData, OF Inr]
    by (intro js_bind_effects get_effects)
      (simp add: onJoin_no_warn onUpdate_no_warn js_emit_def)
qed

text \<open>
  Claim C9. The test \<^verbatim>\<open>typeof type == undefined\<close> is false for every value of
  \<^verbatim>\<open>type\<close>, since \<^verbatim>\<open>typeof\<close> yields a string. So no run of \<^verbatim>\<open>onMessage\<close> makes a
  \<^verbatim>\<open>console.warn\<close> call; on every decoded value \<^verbatim>\<open>onMessage\<close> is the two reads followed
  by the \<^verbatim>\<open>switch\<close>; and an envelope whose type is absent (the empty array) or
  \<^verbatim>\<open>undefined\<close> ends in the \<^verbatim>\<open>default\<close> branch, logged as an unknown message type.
\<close>

theorem missing_type_guard_unreachable:
  "loose_eq_undefined (JStr (typeof ty)) = False
   \<and> ConsoleWarn args \<notin> set (fst (onMessage decode frame))
   \<and> (decode frame = Inr messageData \<longrightarrow>
        onMessage decode frame
        = js_bind (js_get messageData 0) (\<lambda>ty.
          js_bind (js_get messageData 1) (\<lambda>data.
            if case_label ty IncomingMessageType_Join then onJoin data
            else if case_label ty IncomingMessageType_Update then onUpdate data
            else js_emit (ConsoleError [Template ''Unknown message type '' ty]))))
   \<and> (decode frame = Inr (JArr []) \<longrightarrow>
        onMessage decode frame
        = ([ConsoleError [Template ''Unknown message type '' JUndefined]], Inr ()))
   \<and> (decode frame = Inr (JArr (JUndefined # payload)) \<longrightarrow>
        onMessage decode frame
        = ([ConsoleError [Template ''Unknown message type '' JUndefined]], Inr ()))"
proof -
  have guard: "loose_eq_undefined (JStr (typeof ty)) = False"
    by simp
  have never: "ConsoleWarn args \<notin> set (fst (onMessage decode frame))"
    using onMessage_no_warn [of decode frame args] by blast
  have switch: "decode frame = Inr messageData \<longrightarrow>
        onMessage decode frame
        = js_bind (js_get messageData 0) (\<lambda>ty.
          js_bind (js_get messageData 1) (\<lambda>data.
            if case_label ty IncomingMessageType_Join then onJoin data
            else if case_label ty IncomingMessageType_Update then onUpdate data
            else js_emit (ConsoleError [Template ''Unknown message type '' ty])))"
    by (simp add: onMessage_guard_free)
  have absent: "decode frame = Inr (JArr []) \<longrightarrow>
        onMessage decode frame
        = ([ConsoleError [Template ''Unknown message type '' JUndefined]], Inr ())"
    by (simp add: onMessage_def case_label_def js_emit_def)
  have undef: "decode frame = Inr (JArr (JUndefined # payload)) \<longrightarrow>
        onMessage decode frame
        = ([ConsoleError [Template ''Unknown message type '' JUndefined]], Inr ())"
    by (simp add: onMessage_def case_label_def js_emit_def js_return_def js_bind_def)
  from guard never switch absent undef show ?thesis by blast
qed

text \<open>
  Witness for C9: the empty envelope and an envelope whose type is \<^verbatim>\<open>undefined\<close>, both
  decoded and both logged as an unknown message type.
\<close>

theorem missing_type_guard_unreachable_witness:
  "standin_decode (Some (JArr [])) = Inr (JArr [])
   \<and> standin_decode (Some (JArr [JUndefined, JNum 3])) = Inr (JArr [JUndefined, JNum 3])
   \<and> onMessage standin_decode (Some (JArr []))
     = ([ConsoleError [Template ''Unknown message type '' JUndefined]], Inr ())
   \<and> onMessage standin_decode (Some (JArr [JUndefined, JNum 3]))
     = ([ConsoleError [Template ''Unknown message type '' JUndefined]], Inr ())"
proof -
  have d1: "standin_decode (Some (JArr [])) = Inr (JArr [])"
    and d2: "standin_decode (Some (JArr [JUndefined, JNum 3])) = Inr (JArr [JUndefined, JNum 3])"
    by (simp_all add: standin_decode_def)
  from missing_type_guard_unreachable [of JUndefined "[]" standin_decode "Some (JArr [])"
      "JArr []" "[JNum 3]"] d1
  have a: "onMessage standin_decode (Some (JArr []))
     = ([ConsoleError [Template ''Unknown message type '' JUndefined]], Inr ())"
    by blast
  from missing_type_guard_unreachable [of JUndefined "[]" standin_decode
      "Some (JArr [JUndefined, JNum 3])" "JArr [JUndefined, JNum 3]" "[JNum 3]"] d2
  have b: "onMessage standin_decode (Some (JArr [JUndefined, JNum 3]))
     = ([ConsoleError [Template ''Unknown message type '' JUndefined]], Inr ())"
    by blast
  from d1 d2 a b show ?thesis by blast
qed

end
